theory Spec2Isabelle
  imports Complex_Main "HOL-Library.Multiset"
begin

section \<open>Campus Cart: order interpretation and aggregation (Code.js)\<close>

text \<open>
  A shallow embedding of the decision logic of \<^verbatim>\<open>Code.js\<close>: the choice between the two
  order-text fields (\<^verbatim>\<open>determineOrderField\<close>), the two-grammar order parser
  (\<^verbatim>\<open>parseOrderItemsEnhanced\<close>), the delivery-fee table (\<^verbatim>\<open>calculateDeliveryFee\<close>), the
  totals computed in \<^verbatim>\<open>onFormSubmit\<close>, and the daily summary built in \<^verbatim>\<open>sendDailySummary\<close>
  and consumed by the dispatch generators.

  Conventions of the model.
  \<^item> A JavaScript string is a \<^typ>\<open>string\<close>; a \<^typ>\<open>char\<close> stands for the UTF-16 code unit
    of the same number, so the model covers the code units U+0000 to U+00FF.
  \<^item> A value that may be \<^verbatim>\<open>null\<close>, \<^verbatim>\<open>undefined\<close> or otherwise not a string is a
    \<^typ>\<open>string option\<close>, with \<^term>\<open>None\<close> for every non-string.
  \<^item> JavaScript numbers are taken exact: quantities are \<^typ>\<open>nat\<close>, prices and sums are
    \<^typ>\<open>rat\<close>. The rounding of IEEE doubles is not modelled.
\<close>

subsection \<open>Strings of the host language\<close>

text \<open>The white space of \<^verbatim>\<open>\s\<close> and of \<^verbatim>\<open>String.prototype.trim\<close>: TAB, LF, VT, FF, CR, SP, NBSP.\<close>

definition is_space :: "char \<Rightarrow> bool" where
  "is_space c \<longleftrightarrow> c \<in> set [CHR 0x09, CHR 0x0A, CHR 0x0B, CHR 0x0C, CHR 0x0D, CHR '' '', CHR 0xA0]"

text \<open>\<^verbatim>\<open>\d\<close>\<close>

definition is_digit :: "char \<Rightarrow> bool" where
  "is_digit c \<longleftrightarrow> c \<in> set ''0123456789''"

definition is_letter :: "char \<Rightarrow> bool" where
  "is_letter c \<longleftrightarrow> c \<in> set ''abcdefghijklmnopqrstuvwxyzABCDEFGHIJKLMNOPQRSTUVWXYZ''"

text \<open>\<^verbatim>\<open>\w\<close> is \<^verbatim>\<open>[A-Za-z0-9_]\<close>; the flag \<^verbatim>\<open>i\<close> adds no code unit below U+0100 to it.\<close>

definition is_word :: "char \<Rightarrow> bool" where
  "is_word c \<longleftrightarrow> is_letter c \<or> is_digit c \<or> c = CHR ''_''"

text \<open>\<^verbatim>\<open>[\w\s]\<close>\<close>

definition is_word_or_space :: "char \<Rightarrow> bool" where
  "is_word_or_space c \<longleftrightarrow> is_word c \<or> is_space c"

definition is_at :: "char \<Rightarrow> bool" where
  "is_at c \<longleftrightarrow> c = CHR ''@''"

definition is_dot :: "char \<Rightarrow> bool" where
  "is_dot c \<longleftrightarrow> c = CHR ''.''"

text \<open>\<^verbatim>\<open>String.prototype.trim\<close>\<close>

definition trim :: "string \<Rightarrow> string" where
  "trim s = rev (dropWhile is_space (rev (dropWhile is_space s)))"

text \<open>
  \<^verbatim>\<open>String.prototype.toLowerCase\<close> on the code units below U+0100: A to Z and the
  capital letters U+00C0 to U+00DE (without the multiplication sign U+00D7) move up by 32.
\<close>

definition lower_char :: "char \<Rightarrow> char" where
  "lower_char c =
     (let n = (of_char c :: nat)
      in if (65 \<le> n \<and> n \<le> 90) \<or> (192 \<le> n \<and> n \<le> 222 \<and> n \<noteq> 215)
         then char_of (n + 32) else c)"

definition toLowerCase :: "string \<Rightarrow> string" where
  "toLowerCase s = map lower_char s"

text \<open>\<^verbatim>\<open>String.prototype.includes\<close>: does \<open>t\<close> occur in \<open>s\<close> as a contiguous block?\<close>

fun startsWith :: "string \<Rightarrow> string \<Rightarrow> bool" where
  "startsWith s [] = True"
| "startsWith [] (y # ys) = False"
| "startsWith (x # xs) (y # ys) = (x = y \<and> startsWith xs ys)"

fun str_includes :: "string \<Rightarrow> string \<Rightarrow> bool" where
  "str_includes [] t = (t = [])"
| "str_includes (x # xs) t = (startsWith (x # xs) t \<or> str_includes xs t)"

text \<open>Truthiness of a value that is a string or no string at all: only a non-empty string is truthy.\<close>

definition truthy :: "string option \<Rightarrow> bool" where
  "truthy v = (case v of None \<Rightarrow> False | Some s \<Rightarrow> s \<noteq> [])"

subsection \<open>Regular expressions, as the parser uses them\<close>

text \<open>
  The two patterns of the parser are built from character classes, sequencing, the
  quantifiers \<^verbatim>\<open>+?\<close>, \<^verbatim>\<open>+\<close>, \<^verbatim>\<open>*\<close> on a class, an optional group, capturing groups and a
  negative lookahead. The matcher is the backtracking matcher of the language
  definition: a pattern is run against a continuation, which is the rest of the match; an
  alternative is abandoned when the continuation fails on it and the next one is tried,
  in the priority order of the quantifier (shortest first for \<^verbatim>\<open>+?\<close>, longest first for
  \<^verbatim>\<open>+\<close>, \<^verbatim>\<open>*\<close> and \<^verbatim>\<open>?\<close>).
\<close>

datatype regex =
    Cls "char \<Rightarrow> bool"
  | Seq regex regex
  | PlusLazy "char \<Rightarrow> bool"
  | PlusGreedy "char \<Rightarrow> bool"
  | StarGreedy "char \<Rightarrow> bool"
  | Opt regex
  | Group regex
  | NotAhead regex

text \<open>A matcher state: the captures completed so far and the input still to be read.\<close>

type_synonym mstate = "string list \<times> string"

fun lazy_plus :: "(char \<Rightarrow> bool) \<Rightarrow> (mstate \<Rightarrow> mstate option) \<Rightarrow> string list \<Rightarrow> string \<Rightarrow> mstate option" where
  "lazy_plus p k c [] = None"
| "lazy_plus p k c (x # xs) =
     (if p x then (case k (c, xs) of Some r \<Rightarrow> Some r | None \<Rightarrow> lazy_plus p k c xs) else None)"

fun greedy_star :: "(char \<Rightarrow> bool) \<Rightarrow> (mstate \<Rightarrow> mstate option) \<Rightarrow> string list \<Rightarrow> string \<Rightarrow> mstate option" where
  "greedy_star p k c [] = k (c, [])"
| "greedy_star p k c (x # xs) =
     (if p x then (case greedy_star p k c xs of Some r \<Rightarrow> Some r | None \<Rightarrow> k (c, x # xs))
      else k (c, x # xs))"

fun greedy_plus :: "(char \<Rightarrow> bool) \<Rightarrow> (mstate \<Rightarrow> mstate option) \<Rightarrow> string list \<Rightarrow> string \<Rightarrow> mstate option" where
  "greedy_plus p k c [] = None"
| "greedy_plus p k c (x # xs) = (if p x then greedy_star p k c xs else None)"

fun run :: "regex \<Rightarrow> (mstate \<Rightarrow> mstate option) \<Rightarrow> mstate \<Rightarrow> mstate option" where
  "run (Cls p) k (c, s) = (case s of [] \<Rightarrow> None | x # xs \<Rightarrow> if p x then k (c, xs) else None)"
| "run (Seq a b) k st = run a (run b k) st"
| "run (PlusLazy p) k (c, s) = lazy_plus p k c s"
| "run (PlusGreedy p) k (c, s) = greedy_plus p k c s"
| "run (StarGreedy p) k (c, s) = greedy_star p k c s"
| "run (Opt a) k st = (case run a k st of Some r \<Rightarrow> Some r | None \<Rightarrow> k st)"
| "run (Group a) k (c, s) =
     run a (\<lambda>(c', s'). k (c' @ [take (length s - length s') s], s')) (c, s)"
| "run (NotAhead a) k st = (case run a Some st of None \<Rightarrow> k st | Some r \<Rightarrow> None)"

text \<open>
  \<^verbatim>\<open>String.prototype.matchAll\<close> with the flag \<^verbatim>\<open>g\<close>: the leftmost match from the current
  position, then on from where it ended (one further after an empty match). The
  counter is the number of characters of the last match that are still to be skipped.
  The result lists the captures of each match.
\<close>

fun matchAll_from :: "regex \<Rightarrow> nat \<Rightarrow> string \<Rightarrow> string list list" where
  "matchAll_from r n [] =
     (case n of Suc j \<Rightarrow> [] | 0 \<Rightarrow> (case run r Some ([], []) of None \<Rightarrow> [] | Some (c, rest) \<Rightarrow> [c]))"
| "matchAll_from r (Suc n) (x # xs) = matchAll_from r n xs"
| "matchAll_from r 0 (x # xs) =
     (case run r Some ([], x # xs) of
        None \<Rightarrow> matchAll_from r 0 xs
      | Some (c, rest) \<Rightarrow> c # matchAll_from r (length (x # xs) - length rest - 1) xs)"

definition matchAll :: "regex \<Rightarrow> string \<Rightarrow> string list list" where
  "matchAll r s = matchAll_from r 0 s"

subsection \<open>The order parser: \<^verbatim>\<open>parseOrderItemsEnhanced\<close>\<close>

record LineItem =
  name :: string
  quantity :: nat
  price :: rat

datatype OrderFormat = Itemized | Prepaid

datatype ParseFailure = EmptyOrder | InvalidItemizedFormat | InvalidPrepaidFormat | UnrecognizableFormat

datatype ParseResult = Success "LineItem list" OrderFormat | Failure ParseFailure

text \<open>\<^verbatim>\<open>/([\w\s]+?)\s+(\d+)\s*@\s*(\d+(?:\.\d{2})?)/gi\<close>\<close>

definition itemizedPattern :: regex where
  "itemizedPattern =
     Seq (Group (PlusLazy is_word_or_space))
    (Seq (PlusGreedy is_space)
    (Seq (Group (PlusGreedy is_digit))
    (Seq (StarGreedy is_space)
    (Seq (Cls is_at)
    (Seq (StarGreedy is_space)
         (Group (Seq (PlusGreedy is_digit)
                     (Opt (Seq (Cls is_dot) (Seq (Cls is_digit) (Cls is_digit)))))))))))"

text \<open>\<^verbatim>\<open>/([\w\s]+?)\s+(\d+)(?!\s*@)/gi\<close>\<close>

definition prepaidPattern :: regex where
  "prepaidPattern =
     Seq (Group (PlusLazy is_word_or_space))
    (Seq (PlusGreedy is_space)
    (Seq (Group (PlusGreedy is_digit))
         (NotAhead (Seq (StarGreedy is_space) (Cls is_at)))))"

text \<open>
  \<^verbatim>\<open>parseInt\<close> and \<^verbatim>\<open>parseFloat\<close> read the longest numeric prefix. The parser calls them
  on captures of \<^verbatim>\<open>\d+\<close> and of \<^verbatim>\<open>\d+(?:\.\d{2})?\<close> only, which start with a digit and
  hold no sign and no exponent, so that neither returns \<^verbatim>\<open>NaN\<close>.
\<close>

definition digit_value :: "char \<Rightarrow> nat" where
  "digit_value c = of_char c - 48"

definition decimal :: "string \<Rightarrow> nat" where
  "decimal ds = foldl (\<lambda>n c. 10 * n + digit_value c) 0 ds"

definition parseInt :: "string \<Rightarrow> nat" where
  "parseInt s = decimal (takeWhile is_digit s)"

definition parseFloat :: "string \<Rightarrow> rat" where
  "parseFloat s =
     (let whole = of_nat (decimal (takeWhile is_digit s))
      in case dropWhile is_digit s of
           [] \<Rightarrow> whole
         | c # fs \<Rightarrow>
             if is_dot c
             then let fd = takeWhile is_digit fs in whole + of_nat (decimal fd) / 10 ^ length fd
             else whole)"

text \<open>The item built from one match of the itemized pattern, and its validation.\<close>

definition itemized_item :: "string list \<Rightarrow> LineItem" where
  "itemized_item m = \<lparr>name = trim (m ! 0), quantity = parseInt (m ! 1), price = parseFloat (m ! 2)\<rparr>"

definition itemized_valid :: "LineItem \<Rightarrow> bool" where
  "itemized_valid item \<longleftrightarrow> name item \<noteq> [] \<and> quantity item > 0 \<and> price item \<ge> 0"

text \<open>The item built from one match of the prepaid pattern: no price.\<close>

definition prepaid_item :: "string list \<Rightarrow> LineItem" where
  "prepaid_item m = \<lparr>name = trim (m ! 0), quantity = parseInt (m ! 1), price = 0\<rparr>"

definition prepaid_valid :: "LineItem \<Rightarrow> bool" where
  "prepaid_valid item \<longleftrightarrow> name item \<noteq> [] \<and> quantity item > 0"

text \<open>
  One attempt per format: the items of all matches when there is a match and every
  item is valid, nothing otherwise.
\<close>

definition try_itemized :: "string \<Rightarrow> LineItem list option" where
  "try_itemized cleanText =
     (let itemizedMatches = matchAll itemizedPattern cleanText
      in if length itemizedMatches > 0
         then let items = map itemized_item itemizedMatches;
                  validItems = filter itemized_valid items
              in if length validItems = length items then Some validItems else None
         else None)"

definition try_prepaid :: "string \<Rightarrow> LineItem list option" where
  "try_prepaid cleanText =
     (let prepaidMatches = matchAll prepaidPattern cleanText
      in if length prepaidMatches > 0
         then let items = map prepaid_item prepaidMatches;
                  validItems = filter prepaid_valid items
              in if length validItems = length items then Some validItems else None
         else None)"

text \<open>The classification once neither format worked.\<close>

definition classify_failure :: "string \<Rightarrow> ParseFailure" where
  "classify_failure cleanText =
     (if str_includes cleanText ''@'' then InvalidItemizedFormat
      else if list_ex is_digit cleanText then InvalidPrepaidFormat
      else UnrecognizableFormat)"

definition parseOrderItemsEnhanced :: "string option \<Rightarrow> ParseResult" where
  "parseOrderItemsEnhanced text =
     (case text of
        None \<Rightarrow> Failure EmptyOrder
      | Some t \<Rightarrow>
          if t = [] then Failure EmptyOrder
          else let cleanText = trim t
               in case try_itemized cleanText of
                    Some items \<Rightarrow> Success items Itemized
                  | None \<Rightarrow>
                      (case try_prepaid cleanText of
                         Some items \<Rightarrow> Success items Prepaid
                       | None \<Rightarrow> Failure (classify_failure cleanText)))"

subsection \<open>The field selector: \<^verbatim>\<open>determineOrderField\<close>\<close>

text \<open>The result \<^term>\<open>None\<close> is the source's \<^verbatim>\<open>null\<close>.\<close>

definition determineOrderField :: "string option \<Rightarrow> string option \<Rightarrow> string option \<Rightarrow> string option" where
  "determineOrderField field1 field2 selectedType =
     (if \<not> truthy field1 \<and> \<not> truthy field2 then None
      else if truthy field1 \<and> \<not> truthy field2 then field1
      else if truthy field2 \<and> \<not> truthy field1 then field2
      else let typeHint = (if truthy selectedType then toLowerCase (the selectedType) else [])
           in if truthy selectedType
                 \<and> (str_includes typeHint ''pickup'' \<or> str_includes typeHint ''delivery'')
              then field2
              else if truthy selectedType \<and> str_includes typeHint ''order'' then field1
              else if length (the field1) > length (the field2) then field1
              else field2)"

text \<open>
  The callers tag the selected text with its source by comparing it with the first
  field: \<^verbatim>\<open>rawOrder === orderField1 ? 'field1' : 'field2'\<close>.
\<close>

datatype OrderSource = Field1 | Field2

definition orderSource_of :: "string option \<Rightarrow> string option \<Rightarrow> OrderSource" where
  "orderSource_of rawOrder orderField1 = (if rawOrder = orderField1 then Field1 else Field2)"

subsection \<open>The fee classifier: \<^verbatim>\<open>calculateDeliveryFee\<close>\<close>

definition near :: "string list" where
  "near = [''Store Near AUP'', ''Dali Putting Kahoy'', ''Local Sari Sari Store'',
           CHR ''D'' # CHR ''a'' # CHR ''n'' # CHR ''t'' # CHR ''e'' # CHR 0x27 # ''s'',
           ''Canteen'', ''AUP Cafeteria'', ''Loading Snacks'', ''Kusina ni Ate'',
           ''Chooks-to-Go (Puting Kahoy)'', ''Burgers & Fries Stalls (near trike terminal)'']"

definition far :: "string list" where
  "far = [''Santa Rosa Heights'', ''Wet Market'', ''Dali Santa Rosa'', ''Safe More'',
          CHR ''A'' # CHR ''n'' # CHR ''d'' # CHR ''o'' # CHR ''k'' # CHR 0x27 # ''s Santa Rosa'',
          ''Mini Stop'', ''7-Eleven'', ''7 Eleven'']"

definition veryFar :: "string list" where
  "veryFar = [''Paseo'', ''Nuvali'', ''Fresh Market'', ''South Mall'', ''Robinson'',
              ''All Home'', ''SM City Sta. Rosa'']"

text \<open>\<^verbatim>\<open>zones.some(zone => normalized.includes(zone.toLowerCase()))\<close>\<close>

definition zone_match :: "string list \<Rightarrow> string \<Rightarrow> bool" where
  "zone_match zones normalized = list_ex (\<lambda>zone. str_includes normalized (toLowerCase zone)) zones"

definition calculateDeliveryFee :: "string option \<Rightarrow> rat" where
  "calculateDeliveryFee store =
     (if \<not> truthy store then 0
      else let normalized = toLowerCase (the store)
           in if zone_match veryFar normalized then 199
              else if zone_match far normalized then 99
              else if zone_match near normalized then 69
              else 0)"

subsection \<open>The order built by \<^verbatim>\<open>onFormSubmit\<close>\<close>

text \<open>
  A row of the response sheet, in the column order both readers destructure. The form
  delivers every answer as a string, an unanswered one as the empty string; the time
  stamp is the number of milliseconds that \<^verbatim>\<open>new Date(timestamp)\<close> stands for.
\<close>

record Row =
  row_timestamp :: int
  row_name :: string
  row_email :: string
  row_phone :: string
  row_location :: string
  row_room :: string
  row_orderType :: string
  row_orderField1 :: string
  row_orderField2 :: string
  row_store :: string
  row_paymentMethod :: string
  row_gcashRef :: string


text \<open>
  The order object; \<open>customer\<close> is its field \<^verbatim>\<open>name\<close>. \<^verbatim>\<open>sendDailySummary\<close> builds it
  without a total, \<^verbatim>\<open>onFormSubmit\<close> with one.
\<close>

record OrderData =
  timestamp :: int
  customer :: string
  email :: string
  phone :: string
  location :: string
  room :: string
  store :: string
  items :: "LineItem list"
  subtotal :: rat
  deliveryFee :: rat
  paymentMethod :: string
  gcashRef :: string
  orderType :: OrderFormat
  selectedOrderType :: string
  orderSource :: OrderSource


text \<open>\<^verbatim>\<open>items.reduce((sum, item) => sum + (item.quantity * (item.price || 0)), 0)\<close>\<close>

definition subtotal_of :: "LineItem list \<Rightarrow> rat" where
  "subtotal_of its =
     foldl (\<lambda>sum item. sum + of_nat (quantity item) * (if price item = 0 then 0 else price item)) 0 its"



subsection \<open>The daily summary of \<^verbatim>\<open>sendDailySummary\<close>\<close>

record Summary =
  totalOrders :: nat
  totalRevenue :: rat
  totalDelivery :: rat
  orders :: "OrderData list"
  storeGroups :: "string \<rightharpoonup> OrderData list"

text \<open>
  The body of the loop over today's rows. A row without order text or with text that
  does not parse leaves the summary as it is. Store names are taken not to name a
  member of \<^verbatim>\<open>Object.prototype\<close>, so that a group that was not created yet reads as absent.
\<close>

definition add_row :: "Summary \<Rightarrow> Row \<Rightarrow> Summary" where
  "add_row summary r =
     (let rawOrder = determineOrderField (Some (row_orderField1 r)) (Some (row_orderField2 r))
                       (Some (row_orderType r))
      in if \<not> truthy rawOrder then summary
         else case parseOrderItemsEnhanced rawOrder of
                Failure e \<Rightarrow> summary
              | Success its detectedOrderType \<Rightarrow>
                  let sub = subtotal_of its;
                      fee = calculateDeliveryFee (Some (row_store r));
                      orderData = \<lparr>timestamp = row_timestamp r, customer = row_name r,
                          email = row_email r, phone = row_phone r, location = row_location r,
                          room = row_room r, store = row_store r, items = its, subtotal = sub,
                          deliveryFee = fee, paymentMethod = row_paymentMethod r,
                          gcashRef = row_gcashRef r, orderType = detectedOrderType,
                          selectedOrderType = row_orderType r,
                          orderSource = orderSource_of rawOrder (Some (row_orderField1 r))\<rparr>;
                      grp = (case storeGroups summary (row_store r) of None \<Rightarrow> [] | Some g \<Rightarrow> g)
                  in summary\<lparr>totalRevenue := totalRevenue summary + sub,
                             totalDelivery := totalDelivery summary + fee,
                             orders := orders summary @ [orderData],
                             storeGroups := (storeGroups summary)(row_store r \<mapsto> grp @ [orderData])\<rparr>)"

text \<open>
  The summary object of \<^verbatim>\<open>sendDailySummary\<close> once the loop is over, from the rows of
  today (\<^verbatim>\<open>todayOrders\<close>).
\<close>

definition sendDailySummary :: "Row list \<Rightarrow> Summary" where
  "sendDailySummary todayOrders =
     foldl add_row
       \<lparr>totalOrders = length todayOrders, totalRevenue = 0, totalDelivery = 0, orders = [],
        storeGroups = Map.empty\<rparr>
       todayOrders"

subsection \<open>The dispatch generators\<close>

text \<open>
  \<^verbatim>\<open>orders.sort((a, b) => new Date(a.timestamp) - new Date(b.timestamp))\<close>: the sort of the
  host is stable and works in place, on the array the summary holds.
\<close>

definition sort_orders :: "OrderData list \<Rightarrow> OrderData list" where
  "sort_orders os = sort_key timestamp os"

text \<open>
  \<^verbatim>\<open>generateDispatchText\<close> and \<^verbatim>\<open>generateDispatchPDF\<close> list the orders after sorting them.
  The model returns the orders in the sequence in which the document lists them, and
  the summary as the call leaves it. With no order to list both return before they sort.
\<close>

definition generateDispatchText :: "Summary \<Rightarrow> OrderData list \<times> Summary" where
  "generateDispatchText summary =
     (if totalOrders summary = 0 then ([], summary)
      else let sorted_orders = sort_orders (orders summary)
           in (sorted_orders, summary\<lparr>orders := sorted_orders\<rparr>))"

definition generateDispatchPDF :: "Summary \<Rightarrow> OrderData list \<times> Summary" where
  "generateDispatchPDF summaryData =
     (if totalOrders summaryData = 0 then ([], summaryData)
      else let sorted_orders = sort_orders (orders summaryData)
           in (sorted_orders, summaryData\<lparr>orders := sorted_orders\<rparr>))"

subsection \<open>Notions used to state the properties\<close>

text \<open>
  \<open>t\<close> occurs in \<open>s\<close>: the meaning of \<^verbatim>\<open>s.includes(t)\<close>, against which
  \<^const>\<open>str_includes\<close> is checked below.
\<close>

definition occurs_in :: "string \<Rightarrow> string \<Rightarrow> bool" where
  "occurs_in t s \<longleftrightarrow> (\<exists>pre post. s = pre @ t @ post)"

text \<open>A store name mentions a zone of the list, whatever the case of the letters.\<close>

definition mentions_zone :: "string list \<Rightarrow> string \<Rightarrow> bool" where
  "mentions_zone zones s \<longleftrightarrow> (\<exists>zone \<in> set zones. occurs_in (toLowerCase zone) (toLowerCase s))"

text \<open>The declared order type mentions a word, whatever the case of its letters.\<close>

definition mentions :: "string option \<Rightarrow> string \<Rightarrow> bool" where
  "mentions declaredType w \<longleftrightarrow> (\<exists>s. declaredType = Some s \<and> occurs_in w (toLowerCase s))"




text \<open>Three rows of one day, the second with text that is no order, the third the earliest.\<close>

definition row_ana :: Row where
  "row_ana = \<lparr>row_timestamp = 2000, row_name = ''Ana'', row_email = ''ana@aup.ph'',
     row_phone = ''0917'', row_location = ''Dorm A'', row_room = ''101'', row_orderType = ''Order'',
     row_orderField1 = ''Burger 2 @80'', row_orderField2 = [], row_store = ''AUP Cafeteria'',
     row_paymentMethod = ''COD'', row_gcashRef = []\<rparr>"

definition row_ben :: Row where
  "row_ben = \<lparr>row_timestamp = 3000, row_name = ''Ben'', row_email = ''ben@aup.ph'',
     row_phone = ''0918'', row_location = ''Dorm B'', row_room = ''102'', row_orderType = ''Order'',
     row_orderField1 = ''Invalid format here'', row_orderField2 = [], row_store = ''Mini Stop'',
     row_paymentMethod = ''COD'', row_gcashRef = []\<rparr>"

definition row_cy :: Row where
  "row_cy = \<lparr>row_timestamp = 1000, row_name = ''Cy'', row_email = ''cy@aup.ph'',
     row_phone = ''0919'', row_location = ''Dorm C'', row_room = ''103'', row_orderType = ''Pickup'',
     row_orderField1 = [], row_orderField2 = ''Fries 1'', row_store = ''Paseo'',
     row_paymentMethod = ''GCash'', row_gcashRef = ''R1''\<rparr>"


section \<open>Properties\<close>

subsection \<open>Character classes and trimming\<close>

lemma space_not_digit: "is_space c \<Longrightarrow> \<not> is_digit c"
  by (auto simp: is_space_def is_digit_def)

lemma space_not_at: "is_space c \<Longrightarrow> \<not> is_at c"
  by (auto simp: is_space_def is_at_def)

lemma digit_not_at: "is_digit c \<Longrightarrow> \<not> is_at c"
  by (auto simp: is_digit_def is_at_def)

lemma digit_not_dot: "is_digit c \<Longrightarrow> \<not> is_dot c"
  by (auto simp: is_dot_def is_digit_def)




lemma trim_all_space: "\<forall>c\<in>set t. is_space c \<Longrightarrow> trim t = []"
  by (induction t) (simp_all add: trim_def)

lemma matchAll_nil_itemized: "matchAll itemizedPattern [] = []"
  by (simp add: matchAll_def itemizedPattern_def)

lemma matchAll_nil_prepaid: "matchAll prepaidPattern [] = []"
  by (simp add: matchAll_def prepaidPattern_def)

subsection \<open>Text of white space only\<close>

text \<open>
  C10. A non-empty text of white space only passes the test for the empty order, which
  looks at the text before it is trimmed; trimmed, it is empty, matches neither
  pattern and holds neither an at sign nor a digit, so the parser answers that the
  format is unrecognizable, not that the order is empty.
\<close>

theorem whitespace_only_is_unrecognizable:
  assumes "t \<noteq> []" and "\<forall>c\<in>set t. is_space c"
  shows "parseOrderItemsEnhanced (Some t) = Failure UnrecognizableFormat"
proof -
  have "trim t = []" using assms(2) by (rule trim_all_space)
  moreover have "try_itemized [] = None" by (simp add: try_itemized_def matchAll_nil_itemized)
  moreover have "try_prepaid [] = None" by (simp add: try_prepaid_def matchAll_nil_prepaid)
  moreover have "classify_failure [] = UnrecognizableFormat" by (simp add: classify_failure_def)
  ultimately show ?thesis using assms(1) by (simp add: parseOrderItemsEnhanced_def)
qed

theorem whitespace_only_is_unrecognizable_witness:
  "parseOrderItemsEnhanced (Some [CHR '' '', CHR 0x09, CHR '' '']) = Failure UnrecognizableFormat"
  using whitespace_only_is_unrecognizable [of "[CHR '' '', CHR 0x09, CHR '' '']"]
  by (simp add: is_space_def)

subsection \<open>Substrings\<close>

text \<open>\<^const>\<open>str_includes\<close> decides occurrence as a contiguous block.\<close>

lemma startsWith_iff: "startsWith s t \<longleftrightarrow> (\<exists>post. s = t @ post)"
  by (induction s t rule: startsWith.induct) auto

lemma occurs_in_Nil: "occurs_in t [] \<longleftrightarrow> t = []"
  by (simp add: occurs_in_def)

lemma occurs_in_Cons: "occurs_in t (x # xs) \<longleftrightarrow> (\<exists>post. x # xs = t @ post) \<or> occurs_in t xs"
proof
  assume "occurs_in t (x # xs)"
  then obtain pre post where eq: "x # xs = pre @ t @ post" by (auto simp: occurs_in_def)
  show "(\<exists>post. x # xs = t @ post) \<or> occurs_in t xs"
  proof (cases pre)
    case Nil
    then show ?thesis using eq by auto
  next
    case (Cons p ps)
    then have "xs = ps @ t @ post" using eq by simp
    then show ?thesis by (auto simp: occurs_in_def)
  qed
next
  assume "(\<exists>post. x # xs = t @ post) \<or> occurs_in t xs"
  then show "occurs_in t (x # xs)"
  proof
    assume "\<exists>post. x # xs = t @ post"
    then obtain post where "x # xs = [] @ t @ post" by auto
    then show ?thesis unfolding occurs_in_def by blast
  next
    assume "occurs_in t xs"
    then obtain pre post where "xs = pre @ t @ post" by (auto simp: occurs_in_def)
    then have "x # xs = (x # pre) @ t @ post" by simp
    then show ?thesis unfolding occurs_in_def by blast
  qed
qed

lemma str_includes_iff: "str_includes s t \<longleftrightarrow> occurs_in t s"
  by (induction s) (simp_all add: occurs_in_Nil occurs_in_Cons startsWith_iff)

lemma occurs_in_single: "occurs_in [c] s \<longleftrightarrow> c \<in> set s"
  by (auto simp: occurs_in_def in_set_conv_decomp)

lemma zone_match_iff: "zone_match zones (toLowerCase s) \<longleftrightarrow> mentions_zone zones s"
  by (simp add: zone_match_def mentions_zone_def list_ex_iff str_includes_iff)


subsection \<open>The field selector\<close>

lemma mentions_truthy:
  "truthy ty \<Longrightarrow> mentions ty w \<longleftrightarrow> str_includes (toLowerCase (the ty)) w"
  by (cases ty) (simp_all add: truthy_def mentions_def str_includes_iff)

lemma mentions_falsy:
  "\<not> truthy ty \<Longrightarrow> w \<noteq> [] \<Longrightarrow> \<not> mentions ty w"
  by (cases ty) (simp_all add: truthy_def mentions_def toLowerCase_def occurs_in_Nil)

lemma determineOrderField_both:
  assumes "truthy f1" and "truthy f2"
  shows "determineOrderField f1 f2 ty =
        (if mentions ty ''pickup'' \<or> mentions ty ''delivery'' then f2
         else if mentions ty ''order'' then f1
         else if length (the f1) > length (the f2) then f1
         else f2)"
proof (cases "truthy ty")
  case True
  then show ?thesis
    using assms by (simp add: determineOrderField_def mentions_truthy)
next
  case False
  have "\<not> mentions ty ''pickup''" "\<not> mentions ty ''delivery''" "\<not> mentions ty ''order''"
    using False by (simp_all add: mentions_falsy)
  then show ?thesis
    using assms False by (simp add: determineOrderField_def)
qed

text \<open>
  C8. The field selector returns null when both order-text fields are empty. When
  exactly one is filled it returns that one, and the tag the callers derive names its
  field. When both are filled it returns the second field if the declared type
  mentions pickup or delivery, whatever the case; else the first if it mentions
  order; else the first if it is strictly longer, and the second otherwise, equal
  lengths included.
\<close>

theorem determineOrderField_selection:
  "(\<not> truthy f1 \<and> \<not> truthy f2 \<longrightarrow> determineOrderField f1 f2 ty = None) \<and>
   (truthy f1 \<and> \<not> truthy f2 \<longrightarrow>
      determineOrderField f1 f2 ty = f1 \<and> orderSource_of (determineOrderField f1 f2 ty) f1 = Field1) \<and>
   (\<not> truthy f1 \<and> truthy f2 \<longrightarrow>
      determineOrderField f1 f2 ty = f2 \<and> orderSource_of (determineOrderField f1 f2 ty) f1 = Field2) \<and>
   (truthy f1 \<and> truthy f2 \<longrightarrow>
      determineOrderField f1 f2 ty =
        (if mentions ty ''pickup'' \<or> mentions ty ''delivery'' then f2
         else if mentions ty ''order'' then f1
         else if length (the f1) > length (the f2) then f1
         else f2))"
proof -
  have none: "\<not> truthy f1 \<and> \<not> truthy f2 \<longrightarrow> determineOrderField f1 f2 ty = None"
    by (simp add: determineOrderField_def)
  have one: "truthy f1 \<and> \<not> truthy f2 \<longrightarrow>
      determineOrderField f1 f2 ty = f1 \<and> orderSource_of (determineOrderField f1 f2 ty) f1 = Field1"
    by (simp add: determineOrderField_def orderSource_of_def)
  have two: "\<not> truthy f1 \<and> truthy f2 \<longrightarrow>
      determineOrderField f1 f2 ty = f2 \<and> orderSource_of (determineOrderField f1 f2 ty) f1 = Field2"
    by (auto simp: determineOrderField_def orderSource_of_def)
  from none one two determineOrderField_both [of f1 f2 ty] show ?thesis by blast
qed

theorem determineOrderField_selection_witness:
  "determineOrderField (Some []) None (Some ''Order'') = None \<and>
   determineOrderField (Some ''Burger 2 @80'') (Some []) (Some ''Order'') = Some ''Burger 2 @80'' \<and>
   orderSource_of (determineOrderField (Some ''Burger 2 @80'') (Some []) (Some ''Order''))
     (Some ''Burger 2 @80'') = Field1 \<and>
   determineOrderField (Some []) (Some ''Pickup Fries 1'') (Some ''Pickup'') = Some ''Pickup Fries 1'' \<and>
   orderSource_of (determineOrderField (Some []) (Some ''Pickup Fries 1'') (Some ''Pickup'')) (Some [])
     = Field2 \<and>
   determineOrderField (Some ''Short'') (Some ''A much longer detailed order description'') (Some [])
     = Some ''A much longer detailed order description'' \<and>
   determineOrderField (Some ''Burger 2 @80'') (Some ''Fries 1 @45'') (Some ''Order'')
     = Some ''Burger 2 @80''"
proof -
  have no_hint: "\<not> mentions (Some []) ''pickup''" "\<not> mentions (Some []) ''delivery''"
    "\<not> mentions (Some []) ''order''"
    by (simp_all add: mentions_def toLowerCase_def occurs_in_Nil)
  have lower: "toLowerCase ''Order'' = ''order''" by code_simp
  have hint: "\<not> mentions (Some ''Order'') ''pickup''" "\<not> mentions (Some ''Order'') ''delivery''"
    "mentions (Some ''Order'') ''order''"
    by (simp_all add: mentions_def str_includes_iff [symmetric] lower)
  show ?thesis
    using determineOrderField_selection [of "Some []" None "Some ''Order''"]
      determineOrderField_selection [of "Some ''Burger 2 @80''" "Some []" "Some ''Order''"]
      determineOrderField_selection [of "Some []" "Some ''Pickup Fries 1''" "Some ''Pickup''"]
      determineOrderField_selection [of "Some ''Short''" "Some ''A much longer detailed order description''" "Some []"]
      determineOrderField_selection [of "Some ''Burger 2 @80''" "Some ''Fries 1 @45''" "Some ''Order''"]
      no_hint hint
    by (simp add: truthy_def orderSource_of_def)
qed

subsection \<open>The fee classifier\<close>

lemma zone_match_map: "zone_match zones n = list_ex (str_includes n) (map toLowerCase zones)"
  by (simp add: zone_match_def list_ex_iff)

lemma veryFar_lower:
  "map toLowerCase veryFar = [''paseo'', ''nuvali'', ''fresh market'', ''south mall'', ''robinson'',
     ''all home'', ''sm city sta. rosa'']"
  by code_simp

lemma far_lower:
  "map toLowerCase far = [''santa rosa heights'', ''wet market'', ''dali santa rosa'', ''safe more'',
     CHR ''a'' # CHR ''n'' # CHR ''d'' # CHR ''o'' # CHR ''k'' # CHR 0x27 # ''s santa rosa'',
     ''mini stop'', ''7-eleven'', ''7 eleven'']"
  by code_simp

lemma near_lower:
  "map toLowerCase near = [''store near aup'', ''dali putting kahoy'', ''local sari sari store'',
     CHR ''d'' # CHR ''a'' # CHR ''n'' # CHR ''t'' # CHR ''e'' # CHR 0x27 # ''s'',
     ''canteen'', ''aup cafeteria'', ''loading snacks'', ''kusina ni ate'',
     ''chooks-to-go (puting kahoy)'', ''burgers & fries stalls (near trike terminal)'']"
  by code_simp

lemmas fee_eval = calculateDeliveryFee_def truthy_def zone_match_map veryFar_lower far_lower near_lower

lemma fee_sm_city: "calculateDeliveryFee (Some ''SM City Sta. Rosa'') = 199"
proof -
  have "toLowerCase ''SM City Sta. Rosa'' = ''sm city sta. rosa''" by code_simp
  then show ?thesis by (simp add: fee_eval)
qed

lemma fee_aup_cafeteria: "calculateDeliveryFee (Some ''AUP Cafeteria'') = 69"
proof -
  have "toLowerCase ''AUP Cafeteria'' = ''aup cafeteria''" by code_simp
  then show ?thesis by (simp add: fee_eval)
qed

lemma fee_unknown: "calculateDeliveryFee (Some ''Random Unknown Shop'') = 0"
proof -
  have "toLowerCase ''Random Unknown Shop'' = ''random unknown shop''" by code_simp
  then show ?thesis by (simp add: fee_eval)
qed

text \<open>
  C7. The fee is decided by the first zone list, in the order very far, far, near, one
  of whose names occurs in the store name, the case of letters set aside: 199, 99 or
  69; a store that mentions no zone, an empty store name and a store that is not a
  string cost 0. SM City Sta. Rosa costs 199, AUP Cafeteria 69, Random Unknown Shop 0.
\<close>

theorem calculateDeliveryFee_zones:
  "calculateDeliveryFee None = 0 \<and> calculateDeliveryFee (Some []) = 0 \<and>
   (s \<noteq> [] \<longrightarrow> calculateDeliveryFee (Some s) =
      (if mentions_zone veryFar s then 199
       else if mentions_zone far s then 99
       else if mentions_zone near s then 69
       else 0)) \<and>
   calculateDeliveryFee (Some ''SM City Sta. Rosa'') = 199 \<and>
   calculateDeliveryFee (Some ''AUP Cafeteria'') = 69 \<and>
   calculateDeliveryFee (Some ''Random Unknown Shop'') = 0"
  by (simp add: fee_sm_city fee_aup_cafeteria fee_unknown)
     (simp add: calculateDeliveryFee_def truthy_def zone_match_iff)

theorem calculateDeliveryFee_zones_witness:
  "mentions_zone far ''7-Eleven Paseo'' \<and> calculateDeliveryFee (Some ''7-Eleven Paseo'') = 199"
proof -
  have lower: "toLowerCase ''7-Eleven Paseo'' = ''7-eleven paseo''" by code_simp
  have v: "mentions_zone veryFar ''7-Eleven Paseo''"
    unfolding zone_match_iff [symmetric] by (simp add: lower zone_match_map veryFar_lower)
  have f: "mentions_zone far ''7-Eleven Paseo''"
    unfolding zone_match_iff [symmetric] by (simp add: lower zone_match_map far_lower)
  show ?thesis using calculateDeliveryFee_zones [of "''7-Eleven Paseo''"] v f by simp
qed

subsection \<open>Failures of the parser\<close>

lemma set_dropWhile_keep: "\<not> P c \<Longrightarrow> c \<in> set (dropWhile P xs) \<longleftrightarrow> c \<in> set xs"
  by (induction xs) auto

lemma set_trim_keep: "\<not> is_space c \<Longrightarrow> c \<in> set (trim t) \<longleftrightarrow> c \<in> set t"
  by (simp add: trim_def set_dropWhile_keep)

lemma at_not_space: "\<not> is_space (CHR ''@'')"
  by (simp add: is_space_def)

lemma classify_failure_trim:
  "classify_failure (trim t) =
     (if CHR ''@'' \<in> set t then InvalidItemizedFormat
      else if \<exists>c\<in>set t. is_digit c then InvalidPrepaidFormat
      else UnrecognizableFormat)"
proof -
  have a: "str_includes (trim t) ''@'' \<longleftrightarrow> CHR ''@'' \<in> set t"
    by (simp add: str_includes_iff occurs_in_single set_trim_keep at_not_space)
  have "(\<exists>c\<in>set (trim t). is_digit c) \<longleftrightarrow> (\<exists>c\<in>set t. is_digit c)"
    using set_trim_keep space_not_digit by blast
  then have d: "list_ex is_digit (trim t) \<longleftrightarrow> (\<exists>c\<in>set t. is_digit c)"
    by (simp add: list_ex_iff)
  show ?thesis unfolding classify_failure_def a d ..
qed

text \<open>
  C5. A text that is no string or is empty is an empty order, before any pattern is
  tried. For any other text on which neither attempt yields a fully valid item list,
  the failure is the invalid itemized format if the text holds an at sign, else the
  invalid prepaid format if it holds a digit, else the unrecognizable format; and if
  one attempt yields such a list the parser succeeds.
\<close>

theorem failure_classification:
  "parseOrderItemsEnhanced None = Failure EmptyOrder \<and>
   parseOrderItemsEnhanced (Some []) = Failure EmptyOrder \<and>
   (t \<noteq> [] \<and> try_itemized (trim t) = None \<and> try_prepaid (trim t) = None \<longrightarrow>
      parseOrderItemsEnhanced (Some t) =
        Failure (if CHR ''@'' \<in> set t then InvalidItemizedFormat
                 else if \<exists>c\<in>set t. is_digit c then InvalidPrepaidFormat
                 else UnrecognizableFormat)) \<and>
   (t \<noteq> [] \<and> (try_itemized (trim t) \<noteq> None \<or> try_prepaid (trim t) \<noteq> None) \<longrightarrow>
      (\<exists>its f. parseOrderItemsEnhanced (Some t) = Success its f))"
proof -
  have "t \<noteq> [] \<and> try_itemized (trim t) = None \<and> try_prepaid (trim t) = None \<longrightarrow>
      parseOrderItemsEnhanced (Some t) = Failure (classify_failure (trim t))"
    by (simp add: parseOrderItemsEnhanced_def)
  moreover have "t \<noteq> [] \<and> (try_itemized (trim t) \<noteq> None \<or> try_prepaid (trim t) \<noteq> None) \<longrightarrow>
      (\<exists>its f. parseOrderItemsEnhanced (Some t) = Success its f)"
    by (cases "try_itemized (trim t)"; cases "try_prepaid (trim t)")
       (simp_all add: parseOrderItemsEnhanced_def Let_def)
  ultimately show ?thesis
    by (simp add: classify_failure_trim) (simp add: parseOrderItemsEnhanced_def)
qed

theorem failure_classification_witness:
  "parseOrderItemsEnhanced (Some ''@80'') = Failure InvalidItemizedFormat \<and>
   parseOrderItemsEnhanced (Some ''2'') = Failure InvalidPrepaidFormat \<and>
   parseOrderItemsEnhanced (Some ''hello'') = Failure UnrecognizableFormat"
proof -
  have a: "try_itemized (trim ''@80'') = None \<and> try_prepaid (trim ''@80'') = None" by code_simp
  have b: "try_itemized (trim ''2'') = None \<and> try_prepaid (trim ''2'') = None" by code_simp
  have c: "try_itemized (trim ''hello'') = None \<and> try_prepaid (trim ''hello'') = None" by code_simp
  show ?thesis
    using failure_classification [of "''@80''"] failure_classification [of "''2''"]
      failure_classification [of "''hello''"] a b c
    by (simp add: is_digit_def)
qed








subsection \<open>Totals of an order\<close>










subsection \<open>The daily summary\<close>

lemma totalOrders_add_row: "totalOrders (add_row summary r) = totalOrders summary"
  by (simp add: add_row_def Let_def split: ParseResult.split)

lemma totalOrders_foldl: "totalOrders (foldl add_row summary rows) = totalOrders summary"
  by (induction rows arbitrary: summary) (simp_all add: totalOrders_add_row)

lemma totalOrders_length: "totalOrders (sendDailySummary rows) = length rows"
  by (simp add: sendDailySummary_def totalOrders_foldl)

lemma parse_burger: "parseOrderItemsEnhanced (Some ''Burger 2 @80'')
    = Success [\<lparr>name = ''Burger'', quantity = 2, price = 80\<rparr>] Itemized"
  by code_simp

lemma parse_invalid: "parseOrderItemsEnhanced (Some ''Invalid format here'') = Failure UnrecognizableFormat"
  by code_simp

lemma parse_fries: "parseOrderItemsEnhanced (Some ''Fries 1'')
    = Success [\<lparr>name = ''Fries'', quantity = 1, price = 0\<rparr>] Prepaid"
  by code_simp

lemma fee_paseo: "calculateDeliveryFee (Some ''Paseo'') = 199"
proof -
  have "toLowerCase ''Paseo'' = ''paseo''" by code_simp
  then show ?thesis by (simp add: fee_eval)
qed

lemma select_ana: "determineOrderField (Some ''Burger 2 @80'') (Some []) (Some ''Order'') = Some ''Burger 2 @80''"
  by (simp add: determineOrderField_def truthy_def)

lemma select_ben: "determineOrderField (Some ''Invalid format here'') (Some []) (Some ''Order'')
    = Some ''Invalid format here''"
  by (simp add: determineOrderField_def truthy_def)

lemma select_cy: "determineOrderField (Some []) (Some ''Fries 1'') (Some ''Pickup'') = Some ''Fries 1''"
  by (simp add: determineOrderField_def truthy_def)

lemmas row_eval = add_row_def row_ana_def row_ben_def row_cy_def select_ana select_ben select_cy
  parse_burger parse_invalid parse_fries fee_aup_cafeteria fee_paseo truthy_def subtotal_of_def
  orderSource_of_def Let_def

lemma orders_ana_ben_cy:
  "map customer (orders (sendDailySummary [row_ana, row_ben, row_cy])) = [''Ana'', ''Cy'']"
  by (simp add: sendDailySummary_def row_eval)

text \<open>
  C1. The claim is that \<open>totalOrders\<close> counts the orders that could be interpreted, 2
  for three rows of which the second does not parse. The source sets \<open>totalOrders\<close> to
  the number of rows of the day before the loop and no row changes it: a skipped row
  is left out of the orders, the revenue, the fees and the store groups, but it is
  counted. For three rows whose second has text that does not parse, the summary
  lists the two other orders and its \<open>totalOrders\<close> is 3.
\<close>

theorem totalOrders_counts_rows:
  "totalOrders (sendDailySummary rows) = length rows \<and>
   parseOrderItemsEnhanced (Some (row_orderField1 row_ben)) = Failure UnrecognizableFormat \<and>
   totalOrders (sendDailySummary [row_ana, row_ben, row_cy]) = 3 \<and>
   map customer (orders (sendDailySummary [row_ana, row_ben, row_cy])) = [''Ana'', ''Cy'']"
  by (simp add: totalOrders_length orders_ana_ben_cy) (simp add: row_ben_def parse_invalid)

lemma orders_ana_cy:
  "map timestamp (orders (sendDailySummary [row_ana, row_cy])) = [2000, 1000]"
  by (simp add: sendDailySummary_def row_eval)

lemma orders_ana_ana:
  "map timestamp (orders (sendDailySummary [row_ana, row_ana])) = [2000, 2000]"
  by (simp add: sendDailySummary_def row_eval)

subsection \<open>The dispatch views\<close>

lemma map_insort_key: "map f (insort_key f x xs) = insort (f x) (map f xs)"
  by (induction xs) simp_all

lemma map_sort_key: "map f (sort_key f xs) = sort (map f xs)"
  by (induction xs) (simp_all add: map_insort_key)

lemma Summary_orders_update_id: "summary\<lparr>orders := os\<rparr> = summary \<longleftrightarrow> os = orders summary"
proof
  assume "summary\<lparr>orders := os\<rparr> = summary"
  then have "orders (summary\<lparr>orders := os\<rparr>) = orders summary" by simp
  then show "os = orders summary" by simp
next
  assume "os = orders summary"
  then show "summary\<lparr>orders := os\<rparr> = summary" by simp
qed

lemma sort_orders_fixed: "sort_orders os = os \<longleftrightarrow> sorted (map timestamp os)"
proof
  assume "sort_orders os = os"
  then have "map timestamp os = map timestamp (sort_key timestamp os)" by (simp add: sort_orders_def)
  then show "sorted (map timestamp os)" by (metis sorted_sort_key)
next
  assume "sorted (map timestamp os)"
  then show "sort_orders os = os" by (simp add: sort_orders_def sort_key_id_if_sorted)
qed

text \<open>
  C2, as amended. Both generators do the same to the summary. With no order counted
  they leave it as it is. Otherwise they sort its list of orders in place: the
  orders they list, and the orders of the summary afterwards, are the accumulated
  orders in ascending order of time stamp, orders of equal time stamp keeping their
  order of arrival; every other field of the summary is unchanged. The summary as a
  whole is unchanged exactly when its orders were already in ascending order.
\<close>

theorem dispatch_sorts_in_place:
  "generateDispatchPDF summary = generateDispatchText summary \<and>
   (totalOrders summary = 0 \<longrightarrow> generateDispatchText summary = ([], summary)) \<and>
   (totalOrders summary \<noteq> 0 \<longrightarrow>
      snd (generateDispatchText summary) = summary\<lparr>orders := fst (generateDispatchText summary)\<rparr> \<and>
      sorted (map timestamp (fst (generateDispatchText summary))) \<and>
      mset (fst (generateDispatchText summary)) = mset (orders summary) \<and>
      (\<forall>k. filter (\<lambda>ord. timestamp ord = k) (fst (generateDispatchText summary))
           = filter (\<lambda>ord. timestamp ord = k) (orders summary)) \<and>
      (snd (generateDispatchText summary) = summary \<longleftrightarrow> sorted (map timestamp (orders summary))))"
proof -
  have same: "generateDispatchPDF summary = generateDispatchText summary"
    by (simp add: generateDispatchPDF_def generateDispatchText_def)
  have none: "totalOrders summary = 0 \<longrightarrow> generateDispatchText summary = ([], summary)"
    by (simp add: generateDispatchText_def)
  have some: "snd (generateDispatchText summary) = summary\<lparr>orders := fst (generateDispatchText summary)\<rparr> \<and>
      sorted (map timestamp (fst (generateDispatchText summary))) \<and>
      mset (fst (generateDispatchText summary)) = mset (orders summary) \<and>
      (\<forall>k. filter (\<lambda>ord. timestamp ord = k) (fst (generateDispatchText summary))
           = filter (\<lambda>ord. timestamp ord = k) (orders summary)) \<and>
      (snd (generateDispatchText summary) = summary \<longleftrightarrow> sorted (map timestamp (orders summary)))"
    if "totalOrders summary \<noteq> 0"
  proof -
    from that have r: "generateDispatchText summary
        = (sort_orders (orders summary), summary\<lparr>orders := sort_orders (orders summary)\<rparr>)"
      by (simp add: generateDispatchText_def Let_def)
    have "sorted (map timestamp (sort_orders (orders summary)))"
      by (simp add: sort_orders_def)
    moreover have "mset (sort_orders (orders summary)) = mset (orders summary)"
      by (simp add: sort_orders_def)
    moreover have "\<forall>k. filter (\<lambda>ord. timestamp ord = k) (sort_orders (orders summary))
           = filter (\<lambda>ord. timestamp ord = k) (orders summary)"
      by (simp add: sort_orders_def sort_key_stable)
    moreover have "summary\<lparr>orders := sort_orders (orders summary)\<rparr> = summary
        \<longleftrightarrow> sorted (map timestamp (orders summary))"
      by (simp add: Summary_orders_update_id sort_orders_fixed)
    ultimately show ?thesis unfolding r by simp
  qed
  from same none some show ?thesis by blast
qed

theorem dispatch_sorts_in_place_witness:
  "totalOrders (sendDailySummary [row_ana, row_cy]) \<noteq> 0 \<and>
   sorted (map timestamp (fst (generateDispatchText (sendDailySummary [row_ana, row_cy])))) \<and>
   snd (generateDispatchText (sendDailySummary [row_ana, row_cy])) \<noteq> sendDailySummary [row_ana, row_cy]"
proof -
  let ?S = "sendDailySummary [row_ana, row_cy]"
  have nz: "totalOrders ?S \<noteq> 0" by (simp add: totalOrders_length)
  from dispatch_sorts_in_place [of ?S] nz
  have srt: "sorted (map timestamp (fst (generateDispatchText ?S)))"
    and iff: "snd (generateDispatchText ?S) = ?S \<longleftrightarrow> sorted (map timestamp (orders ?S))"
    by blast+
  have "\<not> sorted (map timestamp (orders ?S))" by (simp add: orders_ana_cy)
  with nz srt iff show ?thesis by blast
qed

text \<open>
  C2 as stated fails. For a row of time 2000 followed by a row of time 1000 the
  summary holds the orders in this order before a dispatch view is produced and in
  the opposite order afterwards; and two orders of the same time are listed with
  equal, not strictly ascending, time stamps.
\<close>

theorem summary_is_not_read_only:
  "map timestamp (orders (sendDailySummary [row_ana, row_cy])) = [2000, 1000] \<and>
   map timestamp (orders (snd (generateDispatchText (sendDailySummary [row_ana, row_cy])))) = [1000, 2000] \<and>
   map timestamp (orders (snd (generateDispatchPDF (sendDailySummary [row_ana, row_cy])))) = [1000, 2000] \<and>
   map timestamp (fst (generateDispatchText (sendDailySummary [row_ana, row_ana]))) = [2000, 2000]"
  by (simp add: generateDispatchText_def generateDispatchPDF_def totalOrders_length sort_orders_def
      Let_def map_sort_key orders_ana_cy orders_ana_ana)

subsection \<open>The matcher on runs of a class\<close>










subsection \<open>One item with a price\<close>























subsection \<open>One item without a price\<close>














end
